theory Spec2Isabelle
  imports Complex_Main "HOL-Library.Word" "HOL-Library.Signed_Division"
begin

section \<open>Signed 64-bit arithmetic of the C++ source\<close>

text \<open>
  \<^verbatim>\<open>TracyTimer.hpp\<close> computes on \<^verbatim>\<open>int64_t\<close>. A value is a 64-bit word, read as
  two's complement by \<^const>\<open>sint\<close>. C++ division and remainder truncate towards zero:
  on the integers that is \<open>sdiv\<close> and \<open>smod\<close>, not \<open>div\<close> and \<open>mod\<close>.
\<close>

type_synonym int64 = "64 word"

definition sdiv64 :: "int64 \<Rightarrow> int64 \<Rightarrow> int64" where
  "sdiv64 a b = word_of_int (sint a sdiv sint b)"

definition smod64 :: "int64 \<Rightarrow> int64 \<Rightarrow> int64" where
  "smod64 a b = word_of_int (sint a smod sint b)"

text \<open>
  Signed overflow and division by zero are undefined behaviour in C++ (and a compile
  error inside a constant expression, which \<^verbatim>\<open>constexpr\<close> functions may be evaluated
  in). The model makes each of them a result of its own. An operation overflows when the
  word it produces modulo \<open>2 ^ 64\<close> is not the exact integer result; a quotient or
  remainder is undefined when the divisor is zero or the quotient is not representable
  (\<^verbatim>\<open>INT64_MIN / -1\<close>).
\<close>

datatype ub = DivisionByZero | SignedOverflow

definition add64 :: "int64 \<Rightarrow> int64 \<Rightarrow> ub + int64" where
  "add64 a b = (if sint (a + b) = sint a + sint b then Inr (a + b) else Inl SignedOverflow)"

definition mul64 :: "int64 \<Rightarrow> int64 \<Rightarrow> ub + int64" where
  "mul64 a b = (if sint (a * b) = sint a * sint b then Inr (a * b) else Inl SignedOverflow)"

definition neg64 :: "int64 \<Rightarrow> ub + int64" where
  "neg64 a = (if sint (- a) = - sint a then Inr (- a) else Inl SignedOverflow)"

definition div64 :: "int64 \<Rightarrow> int64 \<Rightarrow> ub + int64" where
  "div64 a b =
     (if b = 0 then Inl DivisionByZero
      else if sint a = - (2 ^ 63) \<and> sint b = - 1 then Inl SignedOverflow
      else Inr (sdiv64 a b))"

definition mod64 :: "int64 \<Rightarrow> int64 \<Rightarrow> ub + int64" where
  "mod64 a b =
     (if b = 0 then Inl DivisionByZero
      else if sint a = - (2 ^ 63) \<and> sint b = - 1 then Inl SignedOverflow
      else Inr (smod64 a b))"

text \<open>Sequencing: the first undefined operation decides the outcome.\<close>

definition bind_ub :: "ub + 'a \<Rightarrow> ('a \<Rightarrow> ub + 'b) \<Rightarrow> ub + 'b" where
  "bind_ub m k = (case m of Inl e \<Rightarrow> Inl e | Inr v \<Rightarrow> k v)"

section \<open>Scaling arithmetic (namespace \<^verbatim>\<open>tracy::timers::detail\<close>)\<close>

text \<open>
  \<^verbatim>\<open>
  const int64_t whole = (_counter / _freq) * _period_den;
  const int64_t part = (_counter % _freq) * _period_den / _freq;
  return whole + part;
  \<close>
\<close>

definition clock_scale_generic :: "int64 \<Rightarrow> int64 \<Rightarrow> int64 \<Rightarrow> ub + int64" where
  "clock_scale_generic freq counter period_den =
     bind_ub (div64 counter freq) (\<lambda>q.
     bind_ub (mul64 q period_den) (\<lambda>whole.
     bind_ub (mod64 counter freq) (\<lambda>r.
     bind_ub (mul64 r period_den) (\<lambda>p.
     bind_ub (div64 p freq) (\<lambda>part.
     add64 whole part)))))"

text \<open>
  The same three lines as a two's-complement machine executes them once compiled: every
  operation wraps around and nothing is checked. It is the value the checked function
  returns whenever that one returns a value, and it is read only for \<open>freq \<noteq> 0\<close>.
\<close>

definition clock_scale_generic_wrap :: "int64 \<Rightarrow> int64 \<Rightarrow> int64 \<Rightarrow> int64" where
  "clock_scale_generic_wrap freq counter period_den =
     (let whole = sdiv64 counter freq * period_den;
          part = sdiv64 (smod64 counter freq * period_den) freq
      in whole + part)"

definition clock_scale_10MHz :: "int64 \<Rightarrow> int64 \<Rightarrow> ub + int64" where
  "clock_scale_10MHz counter period_den =
     (let freq = 10000000 in clock_scale_generic freq counter period_den)"

definition clock_scale_24MHz :: "int64 \<Rightarrow> int64 \<Rightarrow> ub + int64" where
  "clock_scale_24MHz counter period_den =
     (let freq = 24000000 in clock_scale_generic freq counter period_den)"

section \<open>Clock sources\<close>

text \<open>
  Every clock has \<^verbatim>\<open>duration = std::chrono::nanoseconds\<close>, so \<^verbatim>\<open>period::num\<close> is 1 and
  \<^verbatim>\<open>period::den\<close> is \<open>10 ^ 9\<close>.
\<close>

definition period_den :: int64 where
  "period_den = 1000000000"

text \<open>
  What the operating system and the hardware answer at the moment of one call of
  \<^verbatim>\<open>now()\<close>. The clocks only read it.
\<close>

record timespec =
  tv_sec :: int64
  tv_nsec :: int64

datatype clockid = CLOCK_MONOTONIC_RAW | CLOCK_MONOTONIC

record platform =
  performance_frequency :: int64
  performance_counter :: int64
  cntfrq_el0 :: "64 word"
  cntvct_el0 :: "64 word"
  monotonic_raw_time :: timespec
  monotonic_time :: timespec

definition query_performance_frequency :: "platform \<Rightarrow> int64" where
  "query_performance_frequency p = performance_frequency p"

definition query_performance_counter :: "platform \<Rightarrow> int64" where
  "query_performance_counter p = performance_counter p"

definition read_cpu_clock :: "platform \<Rightarrow> 64 word" where
  "read_cpu_clock p = cntvct_el0 p"

definition read_cpu_clock_freq :: "platform \<Rightarrow> 64 word" where
  "read_cpu_clock_freq p = cntfrq_el0 p"

definition clock_gettime :: "clockid \<Rightarrow> platform \<Rightarrow> timespec" where
  "clock_gettime clk p =
     (case clk of CLOCK_MONOTONIC_RAW \<Rightarrow> monotonic_raw_time p
                | CLOCK_MONOTONIC \<Rightarrow> monotonic_time p)"

text \<open>
  \<^verbatim>\<open>std::chrono::seconds(ts.tv_sec) + std::chrono::nanoseconds(ts.tv_nsec)\<close>: the sum
  has the common type, nanoseconds, so the seconds are first multiplied by \<open>10 ^ 9\<close>.
\<close>

definition timespec_nanoseconds :: "timespec \<Rightarrow> ub + int64" where
  "timespec_nanoseconds ts =
     bind_ub (mul64 (tv_sec ts) 1000000000) (\<lambda>s. add64 s (tv_nsec ts))"

definition monotonic_raw_now :: "platform \<Rightarrow> ub + int64" where
  "monotonic_raw_now p = timespec_nanoseconds (clock_gettime CLOCK_MONOTONIC_RAW p)"

definition monotonic_now :: "platform \<Rightarrow> ub + int64" where
  "monotonic_now p = timespec_nanoseconds (clock_gettime CLOCK_MONOTONIC p)"

text \<open>
  \<^verbatim>\<open>
  switch (_freq) {
  case 10000000LL: return detail::clock_scale_10MHz(_counter, period::den);
  case 24000000LL: return detail::clock_scale_24MHz(_counter, period::den);
  }
  return detail::clock_scale_generic(_freq, _counter, period::den);
  \<close>
\<close>

definition qpc_scale_dispatch :: "int64 \<Rightarrow> int64 \<Rightarrow> ub + int64" where
  "qpc_scale_dispatch freq counter =
     (if freq = 10000000 then clock_scale_10MHz counter period_den
      else if freq = 24000000 then clock_scale_24MHz counter period_den
      else clock_scale_generic freq counter period_den)"

definition win32_performance_counter_now :: "platform \<Rightarrow> ub + int64" where
  "win32_performance_counter_now p =
     (let freq = query_performance_frequency p;
          counter = query_performance_counter p
      in qpc_scale_dispatch freq counter)"

definition cpu_clock_scale_dispatch :: "int64 \<Rightarrow> int64 \<Rightarrow> ub + int64" where
  "cpu_clock_scale_dispatch freq counter =
     (if freq = 24000000 then clock_scale_24MHz counter period_den
      else clock_scale_generic freq counter period_den)"

text \<open>
  The registers are read as \<^verbatim>\<open>unsigned long long\<close> and stored in \<^verbatim>\<open>int64_t\<close>: the
  same 64 bits, from then on read as signed.
\<close>

definition cpu_clock_now :: "platform \<Rightarrow> ub + int64" where
  "cpu_clock_now p =
     (let freq = read_cpu_clock_freq p;
          counter = read_cpu_clock p
      in cpu_clock_scale_dispatch freq counter)"

section \<open>Clock selection by the preprocessor\<close>

text \<open>The macros the header tests, as the compiler and the platform define them.\<close>

record macros =
  TRACY_TIMER_FALLBACK :: bool
  M_ARM64 :: bool
  aarch64 :: bool
  clang :: bool
  HAS_CLOCK_MONOTONIC_RAW :: bool
  HAS_CLOCK_MONOTONIC :: bool
  WIN32 :: bool

text \<open>
  \<^verbatim>\<open>TRACY_HAVE_CPU_CLOCK\<close> and \<^verbatim>\<open>TRACY_HAVE_CPU_CLOCK_KNOWN_FREQUENCY\<close> are undefined
  at the top of the header and then defined together, by the first of two blocks that
  applies: \<^verbatim>\<open>_M_ARM64\<close>, or else \<^verbatim>\<open>__aarch64__ || (_M_ARM64 && __clang__)\<close>.
\<close>

definition TRACY_HAVE_CPU_CLOCK_KNOWN_FREQUENCY :: "macros \<Rightarrow> bool" where
  "TRACY_HAVE_CPU_CLOCK_KNOWN_FREQUENCY m =
     (if M_ARM64 m then True
      else if aarch64 m \<or> (M_ARM64 m \<and> clang m) then True
      else False)"

datatype clock_source =
  steady_clock | cpu_clock | monotonic_raw | monotonic | win32_performance_counter

definition high_res_time :: "macros \<Rightarrow> clock_source" where
  "high_res_time m =
     (if TRACY_TIMER_FALLBACK m then steady_clock
      else if TRACY_HAVE_CPU_CLOCK_KNOWN_FREQUENCY m then cpu_clock
      else if HAS_CLOCK_MONOTONIC_RAW m then monotonic_raw
      else if HAS_CLOCK_MONOTONIC m then monotonic
      else if WIN32 m then win32_performance_counter
      else steady_clock)"

text \<open>
  Which clock types the header declares under the same macros; \<^verbatim>\<open>std::chrono::steady_clock\<close>
  comes from the standard library and is always there.
\<close>

fun declared :: "macros \<Rightarrow> clock_source \<Rightarrow> bool" where
  "declared m steady_clock = True"
| "declared m cpu_clock = TRACY_HAVE_CPU_CLOCK_KNOWN_FREQUENCY m"
| "declared m monotonic_raw = HAS_CLOCK_MONOTONIC_RAW m"
| "declared m monotonic = HAS_CLOCK_MONOTONIC m"
| "declared m win32_performance_counter = WIN32 m"

section \<open>The scaling expression over the integers\<close>

text \<open>
  The expression of \<^verbatim>\<open>clock_scale_generic\<close> evaluated on unbounded integers, with the
  truncating division of C++. It is what the function returns whenever no step is
  undefined, and the reference the 64-bit results are compared with.
\<close>

definition scale_exact :: "int \<Rightarrow> int \<Rightarrow> int \<Rightarrow> int" where
  "scale_exact f c d = (c sdiv f) * d + ((c smod f) * d) sdiv f"

section \<open>Facts about 64-bit signed arithmetic\<close>

lemma sint_word_of_int_64:
  "- (2 ^ 63) \<le> i \<Longrightarrow> i < 2 ^ 63 \<Longrightarrow> sint (word_of_int i :: int64) = i"
  by (simp add: sint_sbintrunc' signed_take_bit_int_eq_self)

lemma sint_range_64: "- (2 ^ 63) \<le> sint (w :: int64) \<and> sint w < 2 ^ 63"
  using sint_ge [of w] sint_lt [of w] by simp

lemma add64_exact:
  "- (2 ^ 63) \<le> sint a + sint b \<Longrightarrow> sint a + sint b < 2 ^ 63 \<Longrightarrow>
   add64 a b = Inr (a + b) \<and> sint (a + b) = sint a + sint b"
  by (simp add: add64_def sint_word_add signed_take_bit_int_eq_self)

lemma mul64_exact:
  "- (2 ^ 63) \<le> sint a * sint b \<Longrightarrow> sint a * sint b < 2 ^ 63 \<Longrightarrow>
   mul64 a b = Inr (a * b) \<and> sint (a * b) = sint a * sint b"
  by (simp add: mul64_def sint_word_mult signed_take_bit_int_eq_self)

lemma add64_Inr: "add64 a b = Inr t \<Longrightarrow> t = a + b \<and> sint t = sint a + sint b"
  by (auto simp: add64_def split: if_splits)

lemma mul64_Inr: "mul64 a b = Inr t \<Longrightarrow> t = a * b \<and> sint t = sint a * sint b"
  by (auto simp: mul64_def split: if_splits)

lemma sdiv_int_nonneg: "0 \<le> a \<Longrightarrow> 0 < b \<Longrightarrow> a sdiv b = a div b" for a b :: int
  by (simp add: signed_divide_int_def sgn_if)

lemma sdiv_int_nonpos: "a \<le> 0 \<Longrightarrow> 0 < b \<Longrightarrow> a sdiv b = - ((- a) div b)" for a b :: int
  by (simp add: signed_divide_int_def sgn_if)

lemma smod_int_nonneg: "0 \<le> a \<Longrightarrow> 0 < b \<Longrightarrow> a smod b = a mod b" for a b :: int
  by (simp add: signed_modulo_int_def sgn_if)

lemma smod_int_nonpos: "a \<le> 0 \<Longrightarrow> 0 < b \<Longrightarrow> a smod b = - ((- a) mod b)" for a b :: int
  by (simp add: signed_modulo_int_def sgn_if)

lemma div_int_le_dividend: "0 \<le> a \<Longrightarrow> 0 < b \<Longrightarrow> a div b \<le> a" for a b :: int
  using zdiv_mono2 [of a 1 b] by simp

lemma sdiv_int_pos_bounds:
  fixes a b :: int
  assumes "0 < b"
  shows "min a 0 \<le> a sdiv b \<and> a sdiv b \<le> max a 0"
proof (cases "0 \<le> a")
  case True
  then have "a sdiv b = a div b" using assms by (rule sdiv_int_nonneg)
  moreover have "0 \<le> a div b" using True assms by (simp add: pos_imp_zdiv_nonneg_iff)
  moreover have "a div b \<le> a" using True assms by (rule div_int_le_dividend)
  ultimately show ?thesis using True by simp
next
  case False
  then have a: "a \<le> 0" by simp
  then have "a sdiv b = - ((- a) div b)" using assms by (rule sdiv_int_nonpos)
  moreover have "0 \<le> (- a) div b" using a assms by (simp add: pos_imp_zdiv_nonneg_iff)
  moreover have "(- a) div b \<le> - a" using a assms by (simp add: div_int_le_dividend)
  ultimately show ?thesis using a by simp
qed

lemma smod_int_pos_bounds:
  fixes a b :: int
  assumes "0 < b"
  shows "- b < a smod b \<and> a smod b < b"
proof (cases "0 \<le> a")
  case True
  then have "a smod b = a mod b" using assms by (rule smod_int_nonneg)
  moreover have "0 \<le> a mod b" "a mod b < b" using assms by simp_all
  ultimately show ?thesis by linarith
next
  case False
  then have "a smod b = - ((- a) mod b)" using assms by (simp add: smod_int_nonpos)
  moreover have "0 \<le> (- a) mod b" "(- a) mod b < b" using assms by simp_all
  ultimately show ?thesis by linarith
qed

lemma div64_pos:
  assumes "0 < sint f"
  shows "div64 a f = Inr (sdiv64 a f)"
proof -
  have "f \<noteq> 0" using assms by auto
  then show ?thesis using assms by (simp add: div64_def)
qed

lemma mod64_pos:
  assumes "0 < sint f"
  shows "mod64 a f = Inr (smod64 a f)"
proof -
  have "f \<noteq> 0" using assms by auto
  then show ?thesis using assms by (simp add: mod64_def)
qed

lemma sint_sdiv64_pos:
  assumes "0 < sint f"
  shows "sint (sdiv64 a f) = sint a sdiv sint f"
proof -
  have "min (sint a) 0 \<le> sint a sdiv sint f \<and> sint a sdiv sint f \<le> max (sint a) 0"
    using assms by (rule sdiv_int_pos_bounds)
  then have "- (2 ^ 63) \<le> sint a sdiv sint f \<and> sint a sdiv sint f < 2 ^ 63"
    using sint_range_64 [of a] by auto
  then show ?thesis by (simp add: sdiv64_def sint_word_of_int_64)
qed

lemma sint_smod64_pos:
  assumes "0 < sint f"
  shows "sint (smod64 a f) = sint a smod sint f"
proof -
  have "- sint f < sint a smod sint f \<and> sint a smod sint f < sint f"
    using assms by (rule smod_int_pos_bounds)
  then have "- (2 ^ 63) \<le> sint a smod sint f \<and> sint a smod sint f < 2 ^ 63"
    using sint_range_64 [of f] by auto
  then show ?thesis by (simp add: smod64_def sint_word_of_int_64)
qed

lemma split_div_int:
  fixes c d f :: int
  assumes "0 < f"
  shows "(c div f) * d + ((c mod f) * d) div f = (c * d) div f"
proof -
  have "(c mod f) * d + (c div f * d) * f = (c div f * f + c mod f) * d"
    by (simp only: algebra_simps)
  also have "\<dots> = c * d"
    by (simp only: div_mult_mod_eq)
  finally have "(c * d) div f = ((c mod f) * d + (c div f * d) * f) div f"
    by simp
  also have "\<dots> = ((c mod f) * d) div f + c div f * d"
    using assms by simp
  finally show ?thesis by simp
qed


lemma scale_exact_nonneg:
  fixes f c d :: int
  assumes "0 < f" "0 \<le> c" "0 \<le> d"
  shows "scale_exact f c d = (c * d) div f"
proof -
  have "0 \<le> (c mod f) * d" using assms by simp
  then show ?thesis
    using assms by (simp add: scale_exact_def sdiv_int_nonneg smod_int_nonneg split_div_int)
qed

lemma scale_exact_minus:
  fixes f c d :: int
  shows "scale_exact f (- c) d = - scale_exact f c d"
  by (simp add: scale_exact_def signed_divide_int_def signed_modulo_int_def sgn_minus
      algebra_simps)

lemma scale_exact_nonpos:
  fixes f c d :: int
  assumes "0 < f" "c \<le> 0" "0 \<le> d"
  shows "scale_exact f c d = - (((- c) * d) div f)"
  using scale_exact_minus [of f "- c" d] scale_exact_nonneg [of f "- c" d] assms by simp

lemma scale_exact_mono:
  fixes f c1 c2 d :: int
  assumes f: "0 < f" and d: "0 \<le> d" and le: "c1 \<le> c2"
  shows "scale_exact f c1 d \<le> scale_exact f c2 d"
proof -
  consider "0 \<le> c1" | "c2 \<le> 0" | "c1 < 0" "0 < c2" by linarith
  then show ?thesis
  proof cases
    case 1
    then have "0 \<le> c2" using le by simp
    moreover have "c1 * d \<le> c2 * d" using le d by (rule mult_right_mono)
    then have "(c1 * d) div f \<le> (c2 * d) div f" using f by (rule zdiv_mono1)
    ultimately show ?thesis using 1 f d by (simp add: scale_exact_nonneg)
  next
    case 2
    then have "c1 \<le> 0" using le by simp
    moreover have "(- c2) * d \<le> (- c1) * d" using le d by (intro mult_right_mono) simp_all
    then have "((- c2) * d) div f \<le> ((- c1) * d) div f" using f by (rule zdiv_mono1)
    ultimately show ?thesis using 2 f d by (simp add: scale_exact_nonpos)
  next
    case 3
    have "0 \<le> (- c1) * d" using 3 d by (intro mult_nonneg_nonneg) simp_all
    then have "0 \<le> ((- c1) * d) div f" using f by (simp only: pos_imp_zdiv_nonneg_iff)
    then have "scale_exact f c1 d \<le> 0" using 3 f d by (simp add: scale_exact_nonpos)
    moreover have "0 \<le> c2 * d" using 3 d by (intro mult_nonneg_nonneg) simp_all
    then have "0 \<le> (c2 * d) div f" using f by (simp only: pos_imp_zdiv_nonneg_iff)
    then have "0 \<le> scale_exact f c2 d" using 3 f d by (simp add: scale_exact_nonneg)
    ultimately show ?thesis by linarith
  qed
qed

lemma clock_scale_generic_pos:
  assumes "0 < sint f"
  shows "clock_scale_generic f c d =
     bind_ub (mul64 (sdiv64 c f) d) (\<lambda>whole.
     bind_ub (mul64 (smod64 c f) d) (\<lambda>p. add64 whole (sdiv64 p f)))"
  using assms by (simp add: clock_scale_generic_def div64_pos mod64_pos bind_ub_def)

lemma clock_scale_generic_Inr:
  assumes f: "0 < sint f" and t: "clock_scale_generic f c d = Inr t"
  shows "sint t = scale_exact (sint f) (sint c) (sint d)"
    and "t = clock_scale_generic_wrap f c d"
proof -
  from t obtain whole where w: "mul64 (sdiv64 c f) d = Inr whole"
    and t1: "bind_ub (mul64 (smod64 c f) d) (\<lambda>p. add64 whole (sdiv64 p f)) = Inr t"
    unfolding clock_scale_generic_pos [OF f] by (auto simp: bind_ub_def split: sum.splits)
  from t1 obtain p where p: "mul64 (smod64 c f) d = Inr p"
    and t2: "add64 whole (sdiv64 p f) = Inr t"
    by (auto simp: bind_ub_def split: sum.splits)
  have "sint whole = (sint c sdiv sint f) * sint d"
    using mul64_Inr [OF w, THEN conjunct2] by (simp add: sint_sdiv64_pos [OF f])
  moreover have "sint p = (sint c smod sint f) * sint d"
    using mul64_Inr [OF p, THEN conjunct2] by (simp add: sint_smod64_pos [OF f])
  moreover have "sint t = sint whole + sint (sdiv64 p f)"
    using add64_Inr [OF t2, THEN conjunct2] by simp
  ultimately show "sint t = scale_exact (sint f) (sint c) (sint d)"
    by (simp add: scale_exact_def sint_sdiv64_pos [OF f])
  show "t = clock_scale_generic_wrap f c d"
    using mul64_Inr [OF w, THEN conjunct1] mul64_Inr [OF p, THEN conjunct1]
      add64_Inr [OF t2, THEN conjunct1]
    by (simp add: clock_scale_generic_wrap_def)
qed

lemma sint_uminus_64:
  "- (2 ^ 63) < sint (a :: int64) \<Longrightarrow> sint (- a) = - sint a"
  using sint_range_64 [of a] by (simp add: sint_word_minus signed_take_bit_int_eq_self)

lemma clock_scale_generic_defined:
  assumes f: "0 < sint f"
    and w: "- (2 ^ 63) \<le> (sint c sdiv sint f) * sint d" "(sint c sdiv sint f) * sint d < 2 ^ 63"
    and p: "- (2 ^ 63) \<le> (sint c smod sint f) * sint d" "(sint c smod sint f) * sint d < 2 ^ 63"
    and t: "- (2 ^ 63) \<le> scale_exact (sint f) (sint c) (sint d)"
           "scale_exact (sint f) (sint c) (sint d) < 2 ^ 63"
  shows "clock_scale_generic f c d = Inr (clock_scale_generic_wrap f c d)"
    and "sint (clock_scale_generic_wrap f c d) = scale_exact (sint f) (sint c) (sint d)"
proof -
  have mw: "mul64 (sdiv64 c f) d = Inr (sdiv64 c f * d)"
    and sw: "sint (sdiv64 c f * d) = (sint c sdiv sint f) * sint d"
    using mul64_exact [of "sdiv64 c f" d] w by (simp_all add: sint_sdiv64_pos [OF f])
  have mp: "mul64 (smod64 c f) d = Inr (smod64 c f * d)"
    and sp: "sint (smod64 c f * d) = (sint c smod sint f) * sint d"
    using mul64_exact [of "smod64 c f" d] p by (simp_all add: sint_smod64_pos [OF f])
  have spart: "sint (sdiv64 (smod64 c f * d) f) = ((sint c smod sint f) * sint d) sdiv sint f"
    by (simp add: sint_sdiv64_pos [OF f] sp)
  have sum: "sint (sdiv64 c f * d) + sint (sdiv64 (smod64 c f * d) f)
      = scale_exact (sint f) (sint c) (sint d)"
    by (simp add: sw spart scale_exact_def)
  have ma: "add64 (sdiv64 c f * d) (sdiv64 (smod64 c f * d) f)
      = Inr (sdiv64 c f * d + sdiv64 (smod64 c f * d) f)"
    and sa: "sint (sdiv64 c f * d + sdiv64 (smod64 c f * d) f)
      = scale_exact (sint f) (sint c) (sint d)"
    using add64_exact [of "sdiv64 c f * d" "sdiv64 (smod64 c f * d) f"] t
    by (simp_all add: sum)
  show "clock_scale_generic f c d = Inr (clock_scale_generic_wrap f c d)"
    by (simp add: clock_scale_generic_pos [OF f] mw mp ma bind_ub_def
        clock_scale_generic_wrap_def)
  show "sint (clock_scale_generic_wrap f c d) = scale_exact (sint f) (sint c) (sint d)"
    by (simp add: clock_scale_generic_wrap_def sa)
qed

lemma clock_scale_generic_Inr_steps:
  assumes f: "0 < sint f" and t: "clock_scale_generic f c d = Inr t"
  shows "mul64 (sdiv64 c f) d = Inr (sdiv64 c f * d)"
    and "mul64 (smod64 c f) d = Inr (smod64 c f * d)"
    and "sint (sdiv64 c f * d) = (sint c sdiv sint f) * sint d"
    and "sint (smod64 c f * d) = (sint c smod sint f) * sint d"
proof -
  from t obtain whole where w: "mul64 (sdiv64 c f) d = Inr whole"
    and t1: "bind_ub (mul64 (smod64 c f) d) (\<lambda>p. add64 whole (sdiv64 p f)) = Inr t"
    unfolding clock_scale_generic_pos [OF f] by (auto simp: bind_ub_def split: sum.splits)
  from t1 obtain p where p: "mul64 (smod64 c f) d = Inr p"
    by (auto simp: bind_ub_def split: sum.splits)
  have weq: "whole = sdiv64 c f * d" using mul64_Inr [OF w] by simp
  have peq: "p = smod64 c f * d" using mul64_Inr [OF p] by simp
  show "mul64 (sdiv64 c f) d = Inr (sdiv64 c f * d)" using w weq by simp
  show "mul64 (smod64 c f) d = Inr (smod64 c f * d)" using p peq by simp
  show "sint (sdiv64 c f * d) = (sint c sdiv sint f) * sint d"
    using mul64_Inr [OF w, THEN conjunct2] weq by (simp add: sint_sdiv64_pos [OF f])
  show "sint (smod64 c f * d) = (sint c smod sint f) * sint d"
    using mul64_Inr [OF p, THEN conjunct2] peq by (simp add: sint_smod64_pos [OF f])
qed

text \<open>Non-negative counters: what is enough for every step to be exact.\<close>

lemma clock_scale_generic_nonneg:
  assumes f: "0 < sint f" and d: "0 \<le> sint d" and c: "0 \<le> sint c"
    and fd: "(sint f - 1) * sint d < 2 ^ 63"
    and res: "(sint c * sint d) div sint f < 2 ^ 63"
  shows "clock_scale_generic f c d = Inr (clock_scale_generic_wrap f c d)"
    and "sint (clock_scale_generic_wrap f c d) = (sint c * sint d) div sint f"
    and "mul64 (sdiv64 c f) d = Inr (sdiv64 c f * d)"
    and "sint (sdiv64 c f * d) = (sint c div sint f) * sint d"
    and "mul64 (smod64 c f) d = Inr (smod64 c f * d)"
    and "sint (smod64 c f * d) = (sint c mod sint f) * sint d"
proof -
  have q0: "0 \<le> sint c div sint f" using c f by (simp add: pos_imp_zdiv_nonneg_iff)
  have r0: "0 \<le> sint c mod sint f" and r1: "sint c mod sint f \<le> sint f - 1"
    using f pos_mod_bound [of "sint f" "sint c"] by simp_all
  have w0: "0 \<le> (sint c div sint f) * sint d" using q0 d by simp
  have p0: "0 \<le> (sint c mod sint f) * sint d" using r0 d by simp
  have "(sint c mod sint f) * sint d \<le> (sint f - 1) * sint d"
    using r1 d by (rule mult_right_mono)
  then have p1: "(sint c mod sint f) * sint d < 2 ^ 63" using fd by linarith
  have part0: "0 \<le> ((sint c mod sint f) * sint d) div sint f"
    using p0 f by (simp only: pos_imp_zdiv_nonneg_iff)
  have split: "(sint c div sint f) * sint d + ((sint c mod sint f) * sint d) div sint f
      = (sint c * sint d) div sint f"
    using f by (rule split_div_int)
  have w1: "(sint c div sint f) * sint d < 2 ^ 63" using split part0 res by linarith
  have ex: "scale_exact (sint f) (sint c) (sint d) = (sint c * sint d) div sint f"
    using f c d by (rule scale_exact_nonneg)
  have t0: "0 \<le> (sint c * sint d) div sint f" using split part0 w0 by linarith
  have sd: "sint c sdiv sint f = sint c div sint f" using c f by (rule sdiv_int_nonneg)
  have sm: "sint c smod sint f = sint c mod sint f" using c f by (rule smod_int_nonneg)
  have A: "- (2 ^ 63) \<le> (sint c sdiv sint f) * sint d" using w0 sd by simp
  have B: "(sint c sdiv sint f) * sint d < 2 ^ 63" using w1 sd by simp
  have C: "- (2 ^ 63) \<le> (sint c smod sint f) * sint d" using p0 sm by simp
  have D: "(sint c smod sint f) * sint d < 2 ^ 63" using p1 sm by simp
  have E: "- (2 ^ 63) \<le> scale_exact (sint f) (sint c) (sint d)" using t0 ex by simp
  have F: "scale_exact (sint f) (sint c) (sint d) < 2 ^ 63" using res ex by simp
  note defd = clock_scale_generic_defined [OF f A B C D E F]
  show "clock_scale_generic f c d = Inr (clock_scale_generic_wrap f c d)" by (rule defd(1))
  show "sint (clock_scale_generic_wrap f c d) = (sint c * sint d) div sint f"
    using defd(2) ex by simp
  note steps = clock_scale_generic_Inr_steps [OF f defd(1)]
  show "mul64 (sdiv64 c f) d = Inr (sdiv64 c f * d)" by (rule steps(1))
  show "mul64 (smod64 c f) d = Inr (smod64 c f * d)" by (rule steps(2))
  show "sint (sdiv64 c f * d) = (sint c div sint f) * sint d" using steps(3) sd by simp
  show "sint (smod64 c f * d) = (sint c mod sint f) * sint d" using steps(4) sm by simp
qed

lemma ceiling_divide_int:
  "\<lceil>real_of_int a / real_of_int b\<rceil> = - ((- a) div b)"
proof -
  have "\<lceil>real_of_int a / real_of_int b\<rceil> = - \<lfloor>real_of_int (- a) / real_of_int b\<rfloor>"
    by (simp add: ceiling_def)
  then show ?thesis by (simp only: floor_divide_of_int_eq)
qed

lemma qpc_scale_dispatch_generic:
  "qpc_scale_dispatch f c = clock_scale_generic f c period_den"
  by (simp add: qpc_scale_dispatch_def clock_scale_10MHz_def clock_scale_24MHz_def)

lemma cpu_clock_scale_dispatch_generic:
  "cpu_clock_scale_dispatch f c = clock_scale_generic f c period_den"
  by (simp add: cpu_clock_scale_dispatch_def clock_scale_24MHz_def)

lemma clock_scale_generic_mono:
  assumes f: "0 < sint f" and d: "0 \<le> sint d" and le: "sint c1 \<le> sint c2"
    and t1: "clock_scale_generic f c1 d = Inr t1"
    and t2: "clock_scale_generic f c2 d = Inr t2"
  shows "sint t1 \<le> sint t2"
  using scale_exact_mono [OF f d le]
  by (simp add: clock_scale_generic_Inr(1) [OF f t1] clock_scale_generic_Inr(1) [OF f t2])

lemma sdiv_int_minus_left: "(- a) sdiv b = - (a sdiv b)" for a b :: int
  by (simp add: signed_divide_int_def sgn_minus)

lemma smod_int_minus_left: "(- a) smod b = - (a smod b)" for a b :: int
  by (simp add: signed_modulo_int_def sgn_minus)

lemma clock_scale_generic_not_div_by_zero:
  assumes "0 < sint f"
  shows "clock_scale_generic f c d \<noteq> Inl DivisionByZero"
  unfolding clock_scale_generic_pos [OF assms]
  by (simp add: bind_ub_def mul64_def add64_def)

lemma timespec_nanoseconds_exact:
  assumes "0 \<le> sint sec" and "0 \<le> sint nsec"
    and "sint sec * 1000000000 + sint nsec < 2 ^ 63"
  shows "timespec_nanoseconds \<lparr>tv_sec = sec, tv_nsec = nsec\<rparr>
      = Inr (sec * 1000000000 + nsec)"
    and "sint (sec * 1000000000 + nsec) = sint sec * 1000000000 + sint nsec"
proof -
  have m0: "- (2 ^ 63) \<le> sint sec * sint (1000000000 :: int64)"
    and m1: "sint sec * sint (1000000000 :: int64) < 2 ^ 63"
    using assms by simp_all
  note m = mul64_exact [OF m0 m1]
  have sm: "sint (sec * 1000000000) = sint sec * 1000000000" using m by simp
  have a0: "- (2 ^ 63) \<le> sint (sec * 1000000000) + sint nsec"
    and a1: "sint (sec * 1000000000) + sint nsec < 2 ^ 63"
    using assms by (simp_all add: sm)
  note a = add64_exact [OF a0 a1]
  show "timespec_nanoseconds \<lparr>tv_sec = sec, tv_nsec = nsec\<rparr>
      = Inr (sec * 1000000000 + nsec)"
    using m a by (simp add: timespec_nanoseconds_def bind_ub_def)
  show "sint (sec * 1000000000 + nsec) = sint sec * 1000000000 + sint nsec"
    using a by (simp add: sm)
qed

lemma timespec_nanoseconds_Inr:
  assumes "timespec_nanoseconds ts = Inr t"
  shows "sint t = sint (tv_sec ts) * 1000000000 + sint (tv_nsec ts)"
proof -
  from assms obtain s where s: "mul64 (tv_sec ts) 1000000000 = Inr s"
    and t: "add64 s (tv_nsec ts) = Inr t"
    by (auto simp: timespec_nanoseconds_def bind_ub_def split: sum.splits)
  have "sint s = sint (tv_sec ts) * 1000000000"
    using mul64_Inr [OF s, THEN conjunct2] by simp
  then show ?thesis
    using add64_Inr [OF t, THEN conjunct2] by simp
qed

lemma sint_eq_uint_64:
  assumes "uint (w :: int64) < 2 ^ 63"
  shows "sint w = uint w"
proof -
  have "- (2 ^ 63) \<le> (0 :: int)" by simp
  also have "0 \<le> uint w" by (rule uint_ge_0)
  finally have "- (2 ^ 63) \<le> uint w" .
  then show ?thesis using assms by (simp add: sint_uint signed_take_bit_int_eq_self)
qed

lemma timespec_nanoseconds_mono:
  assumes n1: "sint (tv_nsec ts1) < 1000000000" and n2: "0 \<le> sint (tv_nsec ts2)"
    and le: "sint (tv_sec ts1) < sint (tv_sec ts2)
      \<or> (sint (tv_sec ts1) = sint (tv_sec ts2) \<and> sint (tv_nsec ts1) \<le> sint (tv_nsec ts2))"
    and t1: "timespec_nanoseconds ts1 = Inr t1"
    and t2: "timespec_nanoseconds ts2 = Inr t2"
  shows "sint t1 \<le> sint t2"
proof -
  have e1: "sint t1 = sint (tv_sec ts1) * 1000000000 + sint (tv_nsec ts1)"
    using t1 by (rule timespec_nanoseconds_Inr)
  have e2: "sint t2 = sint (tv_sec ts2) * 1000000000 + sint (tv_nsec ts2)"
    using t2 by (rule timespec_nanoseconds_Inr)
  from le show ?thesis
  proof
    assume "sint (tv_sec ts1) < sint (tv_sec ts2)"
    then have "sint (tv_sec ts1) + 1 \<le> sint (tv_sec ts2)" by simp
    then have "(sint (tv_sec ts1) + 1) * 1000000000 \<le> sint (tv_sec ts2) * 1000000000"
      by (rule mult_right_mono) simp
    then show ?thesis using e1 e2 n1 n2 by (simp add: algebra_simps)
  next
    assume "sint (tv_sec ts1) = sint (tv_sec ts2) \<and> sint (tv_nsec ts1) \<le> sint (tv_nsec ts2)"
    then show ?thesis using e1 e2 by simp
  qed
qed

lemmas eval_defs = clock_scale_generic_def clock_scale_generic_wrap_def bind_ub_def div64_def
      mod64_def mul64_def add64_def neg64_def sdiv64_def smod64_def signed_divide_int_def
      signed_modulo_int_def

section \<open>Scaling: exactness\<close>

text \<open>
  Claim C1, as amended. For a frequency \<open>f\<close> with \<open>0 < f \<le> 9223372037\<close> and a counter
  \<open>c\<close> in \<open>[0, 2 ^ 62)\<close> whose exact result \<open>floor (c * 10 ^ 9 / f)\<close> fits in a signed
  64-bit integer, \<^verbatim>\<open>clock_scale_generic(f, c, 1000000000)\<close> returns exactly that
  value: the split into \<open>whole\<close> and \<open>part\<close> loses nothing against \<open>(c * 10 ^ 9) / f\<close>
  computed in arbitrary precision. (\<open>div\<close> on the integers is the floor of the quotient.)
\<close>

theorem scale_exact_when_representable:
  assumes "0 < sint f" and "sint f \<le> 9223372037"
    and "0 \<le> sint c" and "sint c < 2 ^ 62"
    and "\<lfloor>real_of_int (sint c * 1000000000) / real_of_int (sint f)\<rfloor> < 2 ^ 63"
  shows "\<exists>t. clock_scale_generic f c 1000000000 = Inr t
    \<and> sint t = \<lfloor>real_of_int (sint c * 1000000000) / real_of_int (sint f)\<rfloor>
    \<and> sint t = (sint c * 1000000000) div sint f"
proof -
  have fd: "(sint f - 1) * sint (1000000000 :: int64) < 2 ^ 63"
    using assms(2) by simp
  have "(sint c * 1000000000) div sint f < 2 ^ 63"
    using assms(5) unfolding floor_divide_of_int_eq .
  then have res: "(sint c * sint (1000000000 :: int64)) div sint f < 2 ^ 63"
    by simp
  have d: "0 \<le> sint (1000000000 :: int64)" by simp
  note n = clock_scale_generic_nonneg [OF assms(1) d assms(3) fd res]
  have "sint (clock_scale_generic_wrap f c 1000000000) = (sint c * 1000000000) div sint f"
    using n(2) by simp
  then show ?thesis
    unfolding floor_divide_of_int_eq using n(1) by blast
qed

theorem scale_exact_when_representable_witness:
  "0 < sint (3000000000 :: int64) \<and> sint (3000000000 :: int64) \<le> 9223372037
   \<and> 0 \<le> sint (4611686018427387903 :: int64) \<and> sint (4611686018427387903 :: int64) < 2 ^ 62
   \<and> (\<exists>t. clock_scale_generic 3000000000 4611686018427387903 1000000000 = Inr t
        \<and> sint t = 1537228672809129301)"
proof -
  have "\<exists>t. clock_scale_generic 3000000000 4611686018427387903 1000000000 = Inr t
    \<and> sint t = \<lfloor>real_of_int (sint (4611686018427387903 :: int64) * 1000000000)
        / real_of_int (sint (3000000000 :: int64))\<rfloor>
    \<and> sint t = (sint (4611686018427387903 :: int64) * 1000000000) div sint (3000000000 :: int64)"
  proof (rule scale_exact_when_representable)
    show "\<lfloor>real_of_int (sint (4611686018427387903 :: int64) * 1000000000)
        / real_of_int (sint (3000000000 :: int64))\<rfloor> < 2 ^ 63"
      unfolding floor_divide_of_int_eq by simp
  qed simp_all
  then obtain t :: int64 where
    "clock_scale_generic 3000000000 4611686018427387903 1000000000 = Inr t"
    "sint t = (sint (4611686018427387903 :: int64) * 1000000000) div sint (3000000000 :: int64)"
    by blast
  then show ?thesis by simp
qed

text \<open>
  The two bounds are needed. With \<open>f = 1\<close> and \<open>c = 2 ^ 61\<close> the exact result does not fit
  in 64 bits: the multiplication in \<open>whole\<close> overflows, and a machine that wraps around
  returns 0. With \<open>f = 10 ^ 10\<close> and \<open>c = 10 ^ 10 - 1\<close> the exact result 999999999 fits,
  but \<open>(c % f) * 10 ^ 9\<close> overflows, and a machine that wraps around returns -844674407.
\<close>

theorem scale_exact_counterexample:
  "0 < sint (1 :: int64)
   \<and> 0 \<le> sint (2305843009213693952 :: int64) \<and> sint (2305843009213693952 :: int64) < 2 ^ 62
   \<and> clock_scale_generic 1 2305843009213693952 1000000000 = Inl SignedOverflow
   \<and> sint (clock_scale_generic_wrap 1 2305843009213693952 1000000000) = 0
   \<and> \<lfloor>real_of_int (sint (2305843009213693952 :: int64) * 1000000000)
        / real_of_int (sint (1 :: int64))\<rfloor> = 2305843009213693952000000000
   \<and> 0 < sint (10000000000 :: int64)
   \<and> 0 \<le> sint (9999999999 :: int64) \<and> sint (9999999999 :: int64) < 2 ^ 62
   \<and> clock_scale_generic 10000000000 9999999999 1000000000 = Inl SignedOverflow
   \<and> sint (clock_scale_generic_wrap 10000000000 9999999999 1000000000) = - 844674407
   \<and> \<lfloor>real_of_int (sint (9999999999 :: int64) * 1000000000)
        / real_of_int (sint (10000000000 :: int64))\<rfloor> = 999999999"
  unfolding floor_divide_of_int_eq
  by (simp add: clock_scale_generic_def clock_scale_generic_wrap_def bind_ub_def div64_def
      mod64_def mul64_def add64_def sdiv64_def smod64_def signed_divide_int_def
      signed_modulo_int_def)

section \<open>Scaling: no overflow\<close>

text \<open>
  Claim C2, as amended. For a frequency \<open>f\<close> with \<open>0 < f \<le> 9223372037\<close> and a counter
  \<open>c\<close> in \<open>[0, 2 ^ 62)\<close> whose exact result \<open>floor (c * 10 ^ 9 / f)\<close> is below \<open>2 ^ 63\<close>, no
  step of \<^verbatim>\<open>clock_scale_generic(f, c, 1000000000)\<close> overflows: \<open>(c / f) * 10 ^ 9\<close>,
  \<open>(c % f) * 10 ^ 9\<close>, its quotient by \<open>f\<close> and \<open>whole + part\<close> are each the exact integer
  value, and both divisions and the remainder are defined.
\<close>

theorem scale_steps_no_overflow:
  assumes "0 < sint f" and "sint f \<le> 9223372037"
    and "0 \<le> sint c" and "sint c < 2 ^ 62"
    and "(sint c * 1000000000) div sint f < 2 ^ 63"
  shows "\<exists>q whole r p part t.
      div64 c f = Inr q \<and> sint q = sint c div sint f
    \<and> mul64 q 1000000000 = Inr whole \<and> sint whole = (sint c div sint f) * 1000000000
    \<and> mod64 c f = Inr r \<and> sint r = sint c mod sint f
    \<and> mul64 r 1000000000 = Inr p \<and> sint p = (sint c mod sint f) * 1000000000
    \<and> div64 p f = Inr part \<and> sint part = ((sint c mod sint f) * 1000000000) div sint f
    \<and> add64 whole part = Inr t \<and> sint t = sint whole + sint part
    \<and> clock_scale_generic f c 1000000000 = Inr t"
proof -
  let ?d = "1000000000 :: int64"
  let ?q = "sdiv64 c f" and ?r = "smod64 c f"
  let ?whole = "sdiv64 c f * ?d" and ?p = "smod64 c f * ?d"
  let ?part = "sdiv64 (smod64 c f * ?d) f"
  have f: "0 < sint f" by (rule assms(1))
  have fd: "(sint f - 1) * sint ?d < 2 ^ 63" using assms(2) by simp
  have res: "(sint c * sint ?d) div sint f < 2 ^ 63" using assms(5) by simp
  have d: "0 \<le> sint ?d" by simp
  note n = clock_scale_generic_nonneg [OF f d assms(3) fd res]
  have q: "div64 c f = Inr ?q" using f by (rule div64_pos)
  have sq: "sint ?q = sint c div sint f"
    using assms(3) f by (simp add: sint_sdiv64_pos sdiv_int_nonneg)
  have w: "mul64 ?q ?d = Inr ?whole" by (rule n(3))
  have sw: "sint ?whole = (sint c div sint f) * 1000000000" using n(4) by simp
  have r: "mod64 c f = Inr ?r" using f by (rule mod64_pos)
  have sr: "sint ?r = sint c mod sint f"
    using assms(3) f by (simp add: sint_smod64_pos smod_int_nonneg)
  have p: "mul64 ?r ?d = Inr ?p" by (rule n(5))
  have sp: "sint ?p = (sint c mod sint f) * 1000000000" using n(6) by simp
  have part: "div64 ?p f = Inr ?part" using f by (rule div64_pos)
  have "0 \<le> (sint c mod sint f) * 1000000000" using f by simp
  then have spart: "sint ?part = ((sint c mod sint f) * 1000000000) div sint f"
    using f by (simp add: sint_sdiv64_pos sp sdiv_int_nonneg)
  have t: "clock_scale_generic f c ?d = Inr (?whole + ?part)"
    using n(1) by (simp add: clock_scale_generic_wrap_def)
  then have a: "add64 ?whole ?part = Inr (?whole + ?part)"
    by (simp add: clock_scale_generic_pos [OF f] w p bind_ub_def)
  have st: "sint (?whole + ?part) = sint ?whole + sint ?part"
    using add64_Inr [OF a] by simp
  show ?thesis using q sq w sw r sr p sp part spart a st t by blast
qed

theorem scale_steps_no_overflow_witness:
  "0 < sint (24000000 :: int64) \<and> sint (24000000 :: int64) \<le> 9223372037
   \<and> 0 \<le> sint (200000000000000000 :: int64) \<and> sint (200000000000000000 :: int64) < 2 ^ 62
   \<and> (sint (200000000000000000 :: int64) * 1000000000) div sint (24000000 :: int64) < 2 ^ 63
   \<and> (\<exists>q whole r p part t.
        div64 200000000000000000 24000000 = Inr q \<and> sint q = 8333333333
      \<and> mul64 q 1000000000 = Inr whole \<and> sint whole = 8333333333000000000
      \<and> mod64 200000000000000000 24000000 = Inr r \<and> sint r = 8000000
      \<and> mul64 r 1000000000 = Inr p \<and> sint p = 8000000000000000
      \<and> div64 p 24000000 = Inr part \<and> sint part = 333333333
      \<and> add64 whole part = Inr t \<and> sint t = sint whole + sint part
      \<and> clock_scale_generic 24000000 200000000000000000 1000000000 = Inr t)"
  using scale_steps_no_overflow [of 24000000 200000000000000000] by simp

text \<open>
  The claim's own bounds, \<open>f \<le> 10 ^ 10\<close> and \<open>c < 2 ^ 62\<close>, do not exclude overflow. At
  \<open>f = 10 ^ 10\<close>, \<open>c = 10 ^ 10 - 1\<close> the remainder is \<open>c\<close> and \<open>c * 10 ^ 9\<close> exceeds
  \<open>2 ^ 63 - 1\<close>; at \<open>f = 1\<close>, \<open>c = 2 ^ 62 - 1\<close> the quotient is \<open>c\<close> and \<open>c * 10 ^ 9\<close> exceeds it
  too.
\<close>

theorem scale_steps_overflow_counterexample:
  "0 < sint (10000000000 :: int64) \<and> sint (10000000000 :: int64) \<le> 10 ^ 10
   \<and> 0 \<le> sint (9999999999 :: int64) \<and> sint (9999999999 :: int64) < 2 ^ 62
   \<and> mod64 9999999999 10000000000 = Inr 9999999999
   \<and> mul64 9999999999 1000000000 = Inl SignedOverflow
   \<and> sint (9999999999 * 1000000000 :: int64) = - 8446744074709551616
   \<and> sint (9999999999 :: int64) * sint (1000000000 :: int64) = 9999999999000000000
   \<and> 0 < sint (1 :: int64) \<and> sint (1 :: int64) \<le> 10 ^ 10
   \<and> 0 \<le> sint (4611686018427387903 :: int64) \<and> sint (4611686018427387903 :: int64) < 2 ^ 62
   \<and> div64 4611686018427387903 1 = Inr 4611686018427387903
   \<and> mul64 4611686018427387903 1000000000 = Inl SignedOverflow"
  by (simp add: div64_def mod64_def mul64_def sdiv64_def smod64_def signed_divide_int_def
      signed_modulo_int_def)

section \<open>Specialised paths and dispatch\<close>

text \<open>
  Claim C3. The 10 MHz and 24 MHz specialisations and the two dispatch functions return
  what the generic function returns, for every argument, undefined outcomes included.
\<close>

theorem specializations_equal_generic:
  "clock_scale_10MHz c d = clock_scale_generic 10000000 c d
   \<and> clock_scale_24MHz c d = clock_scale_generic 24000000 c d
   \<and> qpc_scale_dispatch f c = clock_scale_generic f c 1000000000
   \<and> cpu_clock_scale_dispatch f c = clock_scale_generic f c 1000000000"
  by (simp add: clock_scale_10MHz_def clock_scale_24MHz_def qpc_scale_dispatch_def
      cpu_clock_scale_dispatch_def period_den_def)

text \<open>
  Claim C7. Frequency 10000000, counter 123456789, period denominator 1000000000: both the
  generic function and the 10 MHz specialisation return 12345678900.
\<close>

theorem scale_concrete_10MHz:
  "clock_scale_generic 10000000 123456789 1000000000 = Inr 12345678900
   \<and> clock_scale_10MHz 123456789 1000000000 = Inr 12345678900
   \<and> sint (12345678900 :: int64) = 12345678900"
  by (simp add: clock_scale_10MHz_def clock_scale_generic_def bind_ub_def div64_def mod64_def
      mul64_def add64_def sdiv64_def smod64_def signed_divide_int_def signed_modulo_int_def)

section \<open>Monotonicity\<close>

text \<open>
  Claim C5, as amended. Two calls that both return a value (no step overflows) never
  decrease, for every clock of the header, under these readings of ``the raw reads do
  not decrease'':
  \<^item> \<^verbatim>\<open>clock_scale_generic\<close>: a frequency \<open>f > 0\<close>, a period denominator \<open>d > 0\<close> and counters
    \<open>c1 \<le> c2\<close> in the signed order of \<^verbatim>\<open>int64_t\<close>, negative counters included;
  \<^item> \<^verbatim>\<open>win32_performance_counter::now()\<close>: the same frequency \<open>f > 0\<close> at both calls and
    counters \<open>c1 \<le> c2\<close> in the signed order (\<^verbatim>\<open>QuadPart\<close> is signed);
  \<^item> \<^verbatim>\<open>cpu_clock::now()\<close>: the same frequency register value in \<open>(0, 2 ^ 63)\<close> at both calls
    and unsigned counter register reads \<open>c1 \<le> c2 < 2 ^ 63\<close>;
  \<^item> \<^verbatim>\<open>monotonic_raw::now()\<close> and \<^verbatim>\<open>monotonic::now()\<close>: two \<^verbatim>\<open>timespec\<close> reads with
    \<open>0 \<le> nsec < 10 ^ 9\<close>, in lexicographic order \<open>(sec1, nsec1) \<le> (sec2, nsec2)\<close>.
\<close>

theorem scale_monotone_in_counter:
  "(0 < sint f \<and> 0 < sint d \<and> sint c1 \<le> sint c2
      \<and> clock_scale_generic f c1 d = Inr t1 \<and> clock_scale_generic f c2 d = Inr t2
        \<longrightarrow> sint t1 \<le> sint t2)
   \<and> (0 < sint (query_performance_frequency p1)
      \<and> query_performance_frequency p2 = query_performance_frequency p1
      \<and> sint (query_performance_counter p1) \<le> sint (query_performance_counter p2)
      \<and> win32_performance_counter_now p1 = Inr u1
      \<and> win32_performance_counter_now p2 = Inr u2
        \<longrightarrow> sint u1 \<le> sint u2)
   \<and> (0 < uint (read_cpu_clock_freq p1) \<and> uint (read_cpu_clock_freq p1) < 2 ^ 63
      \<and> read_cpu_clock_freq p2 = read_cpu_clock_freq p1
      \<and> uint (read_cpu_clock p1) \<le> uint (read_cpu_clock p2)
      \<and> uint (read_cpu_clock p2) < 2 ^ 63
      \<and> cpu_clock_now p1 = Inr v1 \<and> cpu_clock_now p2 = Inr v2
        \<longrightarrow> sint v1 \<le> sint v2)
   \<and> (0 \<le> sint (tv_nsec (clock_gettime CLOCK_MONOTONIC_RAW p1))
      \<and> sint (tv_nsec (clock_gettime CLOCK_MONOTONIC_RAW p1)) < 1000000000
      \<and> 0 \<le> sint (tv_nsec (clock_gettime CLOCK_MONOTONIC_RAW p2))
      \<and> sint (tv_nsec (clock_gettime CLOCK_MONOTONIC_RAW p2)) < 1000000000
      \<and> (sint (tv_sec (clock_gettime CLOCK_MONOTONIC_RAW p1))
            < sint (tv_sec (clock_gettime CLOCK_MONOTONIC_RAW p2))
          \<or> (sint (tv_sec (clock_gettime CLOCK_MONOTONIC_RAW p1))
              = sint (tv_sec (clock_gettime CLOCK_MONOTONIC_RAW p2))
            \<and> sint (tv_nsec (clock_gettime CLOCK_MONOTONIC_RAW p1))
              \<le> sint (tv_nsec (clock_gettime CLOCK_MONOTONIC_RAW p2))))
      \<and> monotonic_raw_now p1 = Inr w1 \<and> monotonic_raw_now p2 = Inr w2
        \<longrightarrow> sint w1 \<le> sint w2)
   \<and> (0 \<le> sint (tv_nsec (clock_gettime CLOCK_MONOTONIC p1))
      \<and> sint (tv_nsec (clock_gettime CLOCK_MONOTONIC p1)) < 1000000000
      \<and> 0 \<le> sint (tv_nsec (clock_gettime CLOCK_MONOTONIC p2))
      \<and> sint (tv_nsec (clock_gettime CLOCK_MONOTONIC p2)) < 1000000000
      \<and> (sint (tv_sec (clock_gettime CLOCK_MONOTONIC p1))
            < sint (tv_sec (clock_gettime CLOCK_MONOTONIC p2))
          \<or> (sint (tv_sec (clock_gettime CLOCK_MONOTONIC p1))
              = sint (tv_sec (clock_gettime CLOCK_MONOTONIC p2))
            \<and> sint (tv_nsec (clock_gettime CLOCK_MONOTONIC p1))
              \<le> sint (tv_nsec (clock_gettime CLOCK_MONOTONIC p2))))
      \<and> monotonic_now p1 = Inr x1 \<and> monotonic_now p2 = Inr x2
        \<longrightarrow> sint x1 \<le> sint x2)"
proof (intro conjI impI)
  have pd: "0 \<le> sint period_den" by (simp add: period_den_def)
  show "sint t1 \<le> sint t2"
    if "0 < sint f \<and> 0 < sint d \<and> sint c1 \<le> sint c2
      \<and> clock_scale_generic f c1 d = Inr t1 \<and> clock_scale_generic f c2 d = Inr t2"
    using that clock_scale_generic_mono [of f d c1 c2 t1 t2] by simp
  show "sint u1 \<le> sint u2"
    if "0 < sint (query_performance_frequency p1)
      \<and> query_performance_frequency p2 = query_performance_frequency p1
      \<and> sint (query_performance_counter p1) \<le> sint (query_performance_counter p2)
      \<and> win32_performance_counter_now p1 = Inr u1
      \<and> win32_performance_counter_now p2 = Inr u2"
    using that pd
      clock_scale_generic_mono [of "query_performance_frequency p1" period_den
        "query_performance_counter p1" "query_performance_counter p2" u1 u2]
    by (auto simp: win32_performance_counter_now_def qpc_scale_dispatch_generic)
  show "sint v1 \<le> sint v2"
    if h: "0 < uint (read_cpu_clock_freq p1) \<and> uint (read_cpu_clock_freq p1) < 2 ^ 63
      \<and> read_cpu_clock_freq p2 = read_cpu_clock_freq p1
      \<and> uint (read_cpu_clock p1) \<le> uint (read_cpu_clock p2)
      \<and> uint (read_cpu_clock p2) < 2 ^ 63
      \<and> cpu_clock_now p1 = Inr v1 \<and> cpu_clock_now p2 = Inr v2"
  proof -
    have f: "0 < sint (read_cpu_clock_freq p1)"
      using h by (simp add: sint_eq_uint_64)
    have "uint (read_cpu_clock p1) < 2 ^ 63" using h by linarith
    then have c: "sint (read_cpu_clock p1) \<le> sint (read_cpu_clock p2)"
      using h by (simp add: sint_eq_uint_64)
    show ?thesis
      using h f c pd
        clock_scale_generic_mono [of "read_cpu_clock_freq p1" period_den
          "read_cpu_clock p1" "read_cpu_clock p2" v1 v2]
      by (auto simp: cpu_clock_now_def cpu_clock_scale_dispatch_generic)
  qed
  show "sint w1 \<le> sint w2"
    if "0 \<le> sint (tv_nsec (clock_gettime CLOCK_MONOTONIC_RAW p1))
      \<and> sint (tv_nsec (clock_gettime CLOCK_MONOTONIC_RAW p1)) < 1000000000
      \<and> 0 \<le> sint (tv_nsec (clock_gettime CLOCK_MONOTONIC_RAW p2))
      \<and> sint (tv_nsec (clock_gettime CLOCK_MONOTONIC_RAW p2)) < 1000000000
      \<and> (sint (tv_sec (clock_gettime CLOCK_MONOTONIC_RAW p1))
            < sint (tv_sec (clock_gettime CLOCK_MONOTONIC_RAW p2))
          \<or> (sint (tv_sec (clock_gettime CLOCK_MONOTONIC_RAW p1))
              = sint (tv_sec (clock_gettime CLOCK_MONOTONIC_RAW p2))
            \<and> sint (tv_nsec (clock_gettime CLOCK_MONOTONIC_RAW p1))
              \<le> sint (tv_nsec (clock_gettime CLOCK_MONOTONIC_RAW p2))))
      \<and> monotonic_raw_now p1 = Inr w1 \<and> monotonic_raw_now p2 = Inr w2"
    using that
      timespec_nanoseconds_mono [of "clock_gettime CLOCK_MONOTONIC_RAW p1"
        "clock_gettime CLOCK_MONOTONIC_RAW p2" w1 w2]
    by (auto simp: monotonic_raw_now_def)
  show "sint x1 \<le> sint x2"
    if "0 \<le> sint (tv_nsec (clock_gettime CLOCK_MONOTONIC p1))
      \<and> sint (tv_nsec (clock_gettime CLOCK_MONOTONIC p1)) < 1000000000
      \<and> 0 \<le> sint (tv_nsec (clock_gettime CLOCK_MONOTONIC p2))
      \<and> sint (tv_nsec (clock_gettime CLOCK_MONOTONIC p2)) < 1000000000
      \<and> (sint (tv_sec (clock_gettime CLOCK_MONOTONIC p1))
            < sint (tv_sec (clock_gettime CLOCK_MONOTONIC p2))
          \<or> (sint (tv_sec (clock_gettime CLOCK_MONOTONIC p1))
              = sint (tv_sec (clock_gettime CLOCK_MONOTONIC p2))
            \<and> sint (tv_nsec (clock_gettime CLOCK_MONOTONIC p1))
              \<le> sint (tv_nsec (clock_gettime CLOCK_MONOTONIC p2))))
      \<and> monotonic_now p1 = Inr x1 \<and> monotonic_now p2 = Inr x2"
    using that
      timespec_nanoseconds_mono [of "clock_gettime CLOCK_MONOTONIC p1"
        "clock_gettime CLOCK_MONOTONIC p2" x1 x2]
    by (auto simp: monotonic_now_def)
qed

theorem scale_monotone_in_counter_witness:
  "0 < sint (10000000 :: int64) \<and> 0 < sint (1000000000 :: int64)
   \<and> sint (5 :: int64) \<le> sint (123456789 :: int64)
   \<and> clock_scale_generic 10000000 5 1000000000 = Inr 500
   \<and> clock_scale_generic 10000000 123456789 1000000000 = Inr 12345678900
   \<and> sint (500 :: int64) \<le> sint (12345678900 :: int64)
   \<and> win32_performance_counter_now
      \<lparr>performance_frequency = 10000000, performance_counter = 5,
       cntfrq_el0 = 24000000, cntvct_el0 = 48000000,
       monotonic_raw_time = \<lparr>tv_sec = 1, tv_nsec = 999999999\<rparr>,
       monotonic_time = \<lparr>tv_sec = 2, tv_nsec = 5\<rparr>\<rparr> = Inr 500
   \<and> win32_performance_counter_now
      \<lparr>performance_frequency = 10000000, performance_counter = 123456789,
       cntfrq_el0 = 24000000, cntvct_el0 = 72000000,
       monotonic_raw_time = \<lparr>tv_sec = 2, tv_nsec = 0\<rparr>,
       monotonic_time = \<lparr>tv_sec = 2, tv_nsec = 6\<rparr>\<rparr> = Inr 12345678900
   \<and> uint (48000000 :: 64 word) \<le> uint (72000000 :: 64 word)
   \<and> uint (72000000 :: 64 word) < 2 ^ 63
   \<and> cpu_clock_now
      \<lparr>performance_frequency = 10000000, performance_counter = 5,
       cntfrq_el0 = 24000000, cntvct_el0 = 48000000,
       monotonic_raw_time = \<lparr>tv_sec = 1, tv_nsec = 999999999\<rparr>,
       monotonic_time = \<lparr>tv_sec = 2, tv_nsec = 5\<rparr>\<rparr> = Inr 2000000000
   \<and> cpu_clock_now
      \<lparr>performance_frequency = 10000000, performance_counter = 123456789,
       cntfrq_el0 = 24000000, cntvct_el0 = 72000000,
       monotonic_raw_time = \<lparr>tv_sec = 2, tv_nsec = 0\<rparr>,
       monotonic_time = \<lparr>tv_sec = 2, tv_nsec = 6\<rparr>\<rparr> = Inr 3000000000
   \<and> sint (2000000000 :: int64) \<le> sint (3000000000 :: int64)
   \<and> monotonic_raw_now
      \<lparr>performance_frequency = 10000000, performance_counter = 5,
       cntfrq_el0 = 24000000, cntvct_el0 = 48000000,
       monotonic_raw_time = \<lparr>tv_sec = 1, tv_nsec = 999999999\<rparr>,
       monotonic_time = \<lparr>tv_sec = 2, tv_nsec = 5\<rparr>\<rparr> = Inr 1999999999
   \<and> monotonic_raw_now
      \<lparr>performance_frequency = 10000000, performance_counter = 123456789,
       cntfrq_el0 = 24000000, cntvct_el0 = 72000000,
       monotonic_raw_time = \<lparr>tv_sec = 2, tv_nsec = 0\<rparr>,
       monotonic_time = \<lparr>tv_sec = 2, tv_nsec = 6\<rparr>\<rparr> = Inr 2000000000
   \<and> sint (1999999999 :: int64) \<le> sint (2000000000 :: int64)
   \<and> monotonic_now
      \<lparr>performance_frequency = 10000000, performance_counter = 5,
       cntfrq_el0 = 24000000, cntvct_el0 = 48000000,
       monotonic_raw_time = \<lparr>tv_sec = 1, tv_nsec = 999999999\<rparr>,
       monotonic_time = \<lparr>tv_sec = 2, tv_nsec = 5\<rparr>\<rparr> = Inr 2000000005
   \<and> monotonic_now
      \<lparr>performance_frequency = 10000000, performance_counter = 123456789,
       cntfrq_el0 = 24000000, cntvct_el0 = 72000000,
       monotonic_raw_time = \<lparr>tv_sec = 2, tv_nsec = 0\<rparr>,
       monotonic_time = \<lparr>tv_sec = 2, tv_nsec = 6\<rparr>\<rparr> = Inr 2000000006
   \<and> sint (2000000005 :: int64) \<le> sint (2000000006 :: int64)"
  using scale_monotone_in_counter [where f = 10000000 and d = 1000000000 and ?c1.0 = 5
      and ?c2.0 = 123456789 and ?t1.0 = 500 and ?t2.0 = 12345678900
      and ?u1.0 = 500 and ?u2.0 = 12345678900
      and ?v1.0 = 2000000000 and ?v2.0 = 3000000000
      and ?w1.0 = 1999999999 and ?w2.0 = 2000000000
      and ?x1.0 = 2000000005 and ?x2.0 = 2000000006
      and ?p1.0 = "\<lparr>performance_frequency = 10000000, performance_counter = 5,
       cntfrq_el0 = 24000000, cntvct_el0 = 48000000,
       monotonic_raw_time = \<lparr>tv_sec = 1, tv_nsec = 999999999\<rparr>,
       monotonic_time = \<lparr>tv_sec = 2, tv_nsec = 5\<rparr>\<rparr>"
      and ?p2.0 = "\<lparr>performance_frequency = 10000000, performance_counter = 123456789,
       cntfrq_el0 = 24000000, cntvct_el0 = 72000000,
       monotonic_raw_time = \<lparr>tv_sec = 2, tv_nsec = 0\<rparr>,
       monotonic_time = \<lparr>tv_sec = 2, tv_nsec = 6\<rparr>\<rparr>"]
  by (simp add: win32_performance_counter_now_def cpu_clock_now_def monotonic_raw_now_def
      monotonic_now_def clock_gettime_def timespec_nanoseconds_def
      query_performance_frequency_def query_performance_counter_def read_cpu_clock_def
      read_cpu_clock_freq_def qpc_scale_dispatch_def cpu_clock_scale_dispatch_def
      clock_scale_10MHz_def clock_scale_24MHz_def period_den_def eval_defs)

text \<open>
  Each proviso is needed.
  \<^item> Overflow: at \<open>f = 1\<close>, \<open>d = 10 ^ 9\<close> the counter 1 scales to \<open>10 ^ 9\<close>, while for the
    larger counter \<open>2 ^ 61\<close> the product \<open>2 ^ 61 * 10 ^ 9\<close> overflows; a machine that wraps
    around returns 0 there, less than \<open>10 ^ 9\<close>.
  \<^item> Unsigned reads from \<open>2 ^ 63\<close> on: \<^verbatim>\<open>cpu_clock::now()\<close> stores the unsigned register in
    an \<^verbatim>\<open>int64_t\<close>. At frequency \<open>2 * 10 ^ 9\<close> the reads \<open>2 ^ 63 - 1\<close> and then \<open>2 ^ 63\<close> give
    4611686018427387903 and then -4611686018427387904, with no overflow in any step.
  \<^item> \<^verbatim>\<open>timespec\<close> not in normal form: \<open>(0, 2 * 10 ^ 9)\<close> comes before \<open>(1, 0)\<close> and counts
    more nanoseconds.
\<close>

theorem scale_monotone_counterexample:
  "0 < sint (1 :: int64) \<and> 0 < sint (1000000000 :: int64)
   \<and> sint (1 :: int64) \<le> sint (2305843009213693952 :: int64)
   \<and> clock_scale_generic 1 1 1000000000 = Inr 1000000000
   \<and> clock_scale_generic 1 2305843009213693952 1000000000 = Inl SignedOverflow
   \<and> clock_scale_generic_wrap 1 1 1000000000 = 1000000000
   \<and> clock_scale_generic_wrap 1 2305843009213693952 1000000000 = 0
   \<and> \<not> sint (clock_scale_generic_wrap 1 1 1000000000)
        \<le> sint (clock_scale_generic_wrap 1 2305843009213693952 1000000000)
   \<and> read_cpu_clock_freq
      \<lparr>performance_frequency = 1, performance_counter = 1,
       cntfrq_el0 = 2000000000, cntvct_el0 = 9223372036854775807,
       monotonic_raw_time = \<lparr>tv_sec = 0, tv_nsec = 2000000000\<rparr>,
       monotonic_time = \<lparr>tv_sec = 0, tv_nsec = 2000000000\<rparr>\<rparr> = 2000000000
   \<and> read_cpu_clock_freq
      \<lparr>performance_frequency = 1, performance_counter = 2305843009213693952,
       cntfrq_el0 = 2000000000, cntvct_el0 = 9223372036854775808,
       monotonic_raw_time = \<lparr>tv_sec = 1, tv_nsec = 0\<rparr>,
       monotonic_time = \<lparr>tv_sec = 1, tv_nsec = 0\<rparr>\<rparr> = 2000000000
   \<and> 0 < sint (2000000000 :: int64)
   \<and> uint (read_cpu_clock
      \<lparr>performance_frequency = 1, performance_counter = 1,
       cntfrq_el0 = 2000000000, cntvct_el0 = 9223372036854775807,
       monotonic_raw_time = \<lparr>tv_sec = 0, tv_nsec = 2000000000\<rparr>,
       monotonic_time = \<lparr>tv_sec = 0, tv_nsec = 2000000000\<rparr>\<rparr>) = 9223372036854775807
   \<and> uint (read_cpu_clock
      \<lparr>performance_frequency = 1, performance_counter = 2305843009213693952,
       cntfrq_el0 = 2000000000, cntvct_el0 = 9223372036854775808,
       monotonic_raw_time = \<lparr>tv_sec = 1, tv_nsec = 0\<rparr>,
       monotonic_time = \<lparr>tv_sec = 1, tv_nsec = 0\<rparr>\<rparr>) = 9223372036854775808
   \<and> cpu_clock_now
      \<lparr>performance_frequency = 1, performance_counter = 1,
       cntfrq_el0 = 2000000000, cntvct_el0 = 9223372036854775807,
       monotonic_raw_time = \<lparr>tv_sec = 0, tv_nsec = 2000000000\<rparr>,
       monotonic_time = \<lparr>tv_sec = 0, tv_nsec = 2000000000\<rparr>\<rparr> = Inr 4611686018427387903
   \<and> cpu_clock_now
      \<lparr>performance_frequency = 1, performance_counter = 2305843009213693952,
       cntfrq_el0 = 2000000000, cntvct_el0 = 9223372036854775808,
       monotonic_raw_time = \<lparr>tv_sec = 1, tv_nsec = 0\<rparr>,
       monotonic_time = \<lparr>tv_sec = 1, tv_nsec = 0\<rparr>\<rparr> = Inr (- 4611686018427387904)
   \<and> \<not> sint (4611686018427387903 :: int64) \<le> sint (- 4611686018427387904 :: int64)
   \<and> sint (tv_sec (clock_gettime CLOCK_MONOTONIC_RAW
      \<lparr>performance_frequency = 1, performance_counter = 1,
       cntfrq_el0 = 2000000000, cntvct_el0 = 9223372036854775807,
       monotonic_raw_time = \<lparr>tv_sec = 0, tv_nsec = 2000000000\<rparr>,
       monotonic_time = \<lparr>tv_sec = 0, tv_nsec = 2000000000\<rparr>\<rparr>)) < sint (tv_sec (clock_gettime CLOCK_MONOTONIC_RAW
      \<lparr>performance_frequency = 1, performance_counter = 2305843009213693952,
       cntfrq_el0 = 2000000000, cntvct_el0 = 9223372036854775808,
       monotonic_raw_time = \<lparr>tv_sec = 1, tv_nsec = 0\<rparr>,
       monotonic_time = \<lparr>tv_sec = 1, tv_nsec = 0\<rparr>\<rparr>))
   \<and> monotonic_raw_now
      \<lparr>performance_frequency = 1, performance_counter = 1,
       cntfrq_el0 = 2000000000, cntvct_el0 = 9223372036854775807,
       monotonic_raw_time = \<lparr>tv_sec = 0, tv_nsec = 2000000000\<rparr>,
       monotonic_time = \<lparr>tv_sec = 0, tv_nsec = 2000000000\<rparr>\<rparr> = Inr 2000000000
   \<and> monotonic_raw_now
      \<lparr>performance_frequency = 1, performance_counter = 2305843009213693952,
       cntfrq_el0 = 2000000000, cntvct_el0 = 9223372036854775808,
       monotonic_raw_time = \<lparr>tv_sec = 1, tv_nsec = 0\<rparr>,
       monotonic_time = \<lparr>tv_sec = 1, tv_nsec = 0\<rparr>\<rparr> = Inr 1000000000
   \<and> \<not> sint (2000000000 :: int64) \<le> sint (1000000000 :: int64)"
  by (simp add: win32_performance_counter_now_def cpu_clock_now_def monotonic_raw_now_def
      monotonic_now_def clock_gettime_def timespec_nanoseconds_def
      query_performance_frequency_def query_performance_counter_def read_cpu_clock_def
      read_cpu_clock_freq_def qpc_scale_dispatch_def cpu_clock_scale_dispatch_def
      clock_scale_10MHz_def clock_scale_24MHz_def period_den_def eval_defs)

section \<open>Frequency zero\<close>

text \<open>
  Claim C6. With \<open>f > 0\<close> both divisions and the remainder of \<^verbatim>\<open>clock_scale_generic\<close>
  are defined and return the truncated quotient and remainder, whatever the counter and
  the product divided in \<open>part\<close> are, so the function never ends in a division by zero.
  The function has no check of its own: with \<open>f = 0\<close> the first division is reached and
  the outcome is the division by zero.
\<close>

theorem frequency_zero_unguarded:
  "(0 < sint f \<longrightarrow>
       div64 c f = Inr (sdiv64 c f) \<and> sint (sdiv64 c f) = sint c sdiv sint f
     \<and> mod64 c f = Inr (smod64 c f) \<and> sint (smod64 c f) = sint c smod sint f
     \<and> div64 p f = Inr (sdiv64 p f) \<and> sint (sdiv64 p f) = sint p sdiv sint f
     \<and> clock_scale_generic f c d \<noteq> Inl DivisionByZero)
   \<and> clock_scale_generic 0 c d = Inl DivisionByZero"
proof -
  have "clock_scale_generic 0 c d = Inl DivisionByZero"
    by (simp add: clock_scale_generic_def div64_def bind_ub_def)
  then show ?thesis
    by (simp add: div64_pos mod64_pos sint_sdiv64_pos sint_smod64_pos
        clock_scale_generic_not_div_by_zero)
qed

theorem frequency_zero_unguarded_witness:
  "0 < sint (24000000 :: int64)
   \<and> div64 (- 50000000) 24000000 = Inr (- 2)
   \<and> mod64 (- 50000000) 24000000 = Inr (- 2000000)
   \<and> div64 (- 2000000000000000) 24000000 = Inr (- 83333333)
   \<and> clock_scale_generic 24000000 (- 50000000) 1000000000 = Inr (- 2083333333)
   \<and> clock_scale_generic 0 (- 50000000) 1000000000 = Inl DivisionByZero"
  using frequency_zero_unguarded [of 24000000 "- 50000000" "- 2000000000000000" 1000000000]
  by (simp add: eval_defs)

section \<open>Negative counters\<close>

text \<open>
  Claim C10, as amended. Let \<open>f > 0\<close>, \<open>d > 0\<close> and let \<^verbatim>\<open>clock_scale_generic(f, c, d)\<close>
  return \<open>t\<close> without overflow. If \<open>c \<ge> 0\<close> then \<open>t\<close> is \<open>floor (c * d / f)\<close>, and the
  call at \<open>- c\<close> is defined too and returns \<open>- t\<close>. If \<open>c < 0\<close> then \<open>t\<close> is
  \<open>ceiling (c * d / f)\<close>: the division truncates towards zero.
\<close>

theorem scale_odd_symmetry:
  assumes f: "0 < sint f" and d: "0 < sint d" and t: "clock_scale_generic f c d = Inr t"
  shows "(0 \<le> sint c \<longrightarrow>
            clock_scale_generic f (- c) d = Inr (- t)
          \<and> sint (- c) = - sint c \<and> sint (- t) = - sint t
          \<and> sint t = \<lfloor>real_of_int (sint c * sint d) / real_of_int (sint f)\<rfloor>)
       \<and> (sint c < 0 \<longrightarrow>
            sint t = \<lceil>real_of_int (sint c * sint d) / real_of_int (sint f)\<rceil>)"
proof (intro conjI impI)
  have d0: "0 \<le> sint d" using d by simp
  have st: "sint t = scale_exact (sint f) (sint c) (sint d)"
    using f t by (rule clock_scale_generic_Inr(1))
  note steps = clock_scale_generic_Inr_steps [OF f t]
  {
    assume c: "0 \<le> sint c"
    have sc: "sint (- c) = - sint c" using c by (intro sint_uminus_64) simp
    have ex: "scale_exact (sint f) (sint c) (sint d) = (sint c * sint d) div sint f"
      using f c d0 by (rule scale_exact_nonneg)
    have "0 \<le> sint c * sint d" using c d0 by simp
    then have "0 \<le> (sint c * sint d) div sint f"
      using f by (simp only: pos_imp_zdiv_nonneg_iff)
    then have t0: "0 \<le> sint t" using st ex by simp
    then have snt: "sint (- t) = - sint t" by (intro sint_uminus_64) simp
    have "0 \<le> sint c div sint f" using c f by (simp add: pos_imp_zdiv_nonneg_iff)
    then have "0 \<le> (sint c div sint f) * sint d" using d0 by simp
    then have w0: "0 \<le> (sint c sdiv sint f) * sint d"
      using c f by (simp add: sdiv_int_nonneg)
    have "0 \<le> (sint c mod sint f) * sint d" using f d0 by simp
    then have p0: "0 \<le> (sint c smod sint f) * sint d"
      using c f by (simp add: smod_int_nonneg)
    have w1: "(sint c sdiv sint f) * sint d < 2 ^ 63"
      using steps(3) sint_range_64 [of "sdiv64 c f * d"] by simp
    have p1: "(sint c smod sint f) * sint d < 2 ^ 63"
      using steps(4) sint_range_64 [of "smod64 c f * d"] by simp
    have t1: "sint t < 2 ^ 63" using sint_range_64 [of t] by simp
    have A: "- (2 ^ 63) \<le> (sint (- c) sdiv sint f) * sint d"
      and B: "(sint (- c) sdiv sint f) * sint d < 2 ^ 63"
      using w0 w1 by (simp_all add: sc sdiv_int_minus_left)
    have C: "- (2 ^ 63) \<le> (sint (- c) smod sint f) * sint d"
      and D: "(sint (- c) smod sint f) * sint d < 2 ^ 63"
      using p0 p1 by (simp_all add: sc smod_int_minus_left)
    have se: "scale_exact (sint f) (sint (- c)) (sint d) = - sint t"
      by (simp add: sc scale_exact_minus st)
    have E: "- (2 ^ 63) \<le> scale_exact (sint f) (sint (- c)) (sint d)"
      and F: "scale_exact (sint f) (sint (- c)) (sint d) < 2 ^ 63"
      using t0 t1 by (simp_all add: se)
    note defd = clock_scale_generic_defined [OF f A B C D E F]
    have "sint (clock_scale_generic_wrap f (- c) d) = sint (- t)"
      using defd(2) se snt by simp
    then have "clock_scale_generic_wrap f (- c) d = - t" by (rule signed_word_eqI)
    then show "clock_scale_generic f (- c) d = Inr (- t)" using defd(1) by simp
    show "sint (- c) = - sint c" by (rule sc)
    show "sint (- t) = - sint t" by (rule snt)
    show "sint t = \<lfloor>real_of_int (sint c * sint d) / real_of_int (sint f)\<rfloor>"
      unfolding floor_divide_of_int_eq using st ex by simp
  }
  {
    assume c: "sint c < 0"
    then have "scale_exact (sint f) (sint c) (sint d) = - (((- sint c) * sint d) div sint f)"
      using f d0 by (intro scale_exact_nonpos) simp_all
    then show "sint t = \<lceil>real_of_int (sint c * sint d) / real_of_int (sint f)\<rceil>"
      unfolding ceiling_divide_int using st by simp
  }
qed

theorem scale_odd_symmetry_witness:
  "0 < sint (3 :: int64) \<and> 0 < sint (1000000000 :: int64)
   \<and> 0 \<le> sint (7 :: int64)
   \<and> clock_scale_generic 3 7 1000000000 = Inr 2333333333
   \<and> clock_scale_generic 3 (- 7) 1000000000 = Inr (- 2333333333)
   \<and> sint (- 7 :: int64) < 0
   \<and> sint (- 2333333333 :: int64)
       = \<lceil>real_of_int (sint (- 7 :: int64) * sint (1000000000 :: int64))
           / real_of_int (sint (3 :: int64))\<rceil>
   \<and> sint (- 2333333333 :: int64)
       \<noteq> \<lfloor>real_of_int (sint (- 7 :: int64) * sint (1000000000 :: int64))
           / real_of_int (sint (3 :: int64))\<rfloor>"
  using scale_odd_symmetry [of 3 1000000000 7 2333333333]
    scale_odd_symmetry [of 3 1000000000 "- 7" "- 2333333333"]
  unfolding floor_divide_of_int_eq ceiling_divide_int
  by (simp add: eval_defs)

text \<open>
  The symmetry does not hold for every counter. \<open>- 2 ^ 63\<close> has no negation in 64 bits:
  with \<open>f = 3\<close>, \<open>d = 1\<close> the call is defined at \<open>c = - 2 ^ 63\<close>, and \<open>- c\<close> is either
  undefined or, wrapped around, \<open>c\<close> again, which scales to the same negative value. And a
  result may be \<open>- 2 ^ 63\<close> for a counter whose negation overflows: \<open>f = 1\<close>, \<open>d = 2 ^ 62\<close>,
  \<open>c = - 2\<close>.
\<close>

theorem scale_odd_symmetry_counterexample:
  "0 < sint (3 :: int64) \<and> 0 < sint (1 :: int64)
   \<and> sint (- 9223372036854775808 :: int64) = - 9223372036854775808
   \<and> clock_scale_generic 3 (- 9223372036854775808) 1 = Inr (- 3074457345618258602)
   \<and> neg64 (- 9223372036854775808) = Inl SignedOverflow
   \<and> clock_scale_generic 3 (- (- 9223372036854775808)) 1 = Inr (- 3074457345618258602)
   \<and> (- 3074457345618258602 :: int64) \<noteq> - (- 3074457345618258602)
   \<and> 0 < sint (4611686018427387904 :: int64)
   \<and> clock_scale_generic 1 (- 2) 4611686018427387904 = Inr (- 9223372036854775808)
   \<and> clock_scale_generic 1 (- (- 2)) 4611686018427387904 = Inl SignedOverflow"
  by (simp add: eval_defs)

section \<open>Clocks that read nanoseconds\<close>

text \<open>
  Claim C8. \<^verbatim>\<open>monotonic_raw::now()\<close> and \<^verbatim>\<open>monotonic::now()\<close> do not scale. Whatever
  \<^verbatim>\<open>timespec\<close> \<open>(sec, nsec)\<close> \<^verbatim>\<open>clock_gettime\<close> returns, an instant they return counts
  exactly \<open>sec * 10 ^ 9 + nsec\<close> nanoseconds; and they do return one for every \<^verbatim>\<open>timespec\<close>
  an operating system hands out: \<open>sec \<ge> 0\<close>, \<open>nsec \<ge> 0\<close> and a nanosecond count that fits
  in the 64-bit representation of \<^verbatim>\<open>std::chrono::nanoseconds\<close> (some 292 years).
\<close>

theorem clock_gettime_now_nanoseconds:
  "(monotonic_raw_now p = Inr t \<longrightarrow>
      sint t = sint (tv_sec (clock_gettime CLOCK_MONOTONIC_RAW p)) * 1000000000
             + sint (tv_nsec (clock_gettime CLOCK_MONOTONIC_RAW p)))
   \<and> (monotonic_now p = Inr t \<longrightarrow>
      sint t = sint (tv_sec (clock_gettime CLOCK_MONOTONIC p)) * 1000000000
             + sint (tv_nsec (clock_gettime CLOCK_MONOTONIC p)))
   \<and> (0 \<le> sint sec \<and> 0 \<le> sint nsec \<and> sint sec * 1000000000 + sint nsec < 2 ^ 63 \<longrightarrow>
        (clock_gettime CLOCK_MONOTONIC_RAW p = \<lparr>tv_sec = sec, tv_nsec = nsec\<rparr> \<longrightarrow>
            (\<exists>u. monotonic_raw_now p = Inr u
               \<and> sint u = sint sec * 1000000000 + sint nsec))
      \<and> (clock_gettime CLOCK_MONOTONIC p = \<lparr>tv_sec = sec, tv_nsec = nsec\<rparr> \<longrightarrow>
            (\<exists>u. monotonic_now p = Inr u
               \<and> sint u = sint sec * 1000000000 + sint nsec)))"
proof (intro conjI impI)
  show "sint t = sint (tv_sec (clock_gettime CLOCK_MONOTONIC_RAW p)) * 1000000000
             + sint (tv_nsec (clock_gettime CLOCK_MONOTONIC_RAW p))"
    if "monotonic_raw_now p = Inr t"
    using that unfolding monotonic_raw_now_def by (rule timespec_nanoseconds_Inr)
  show "sint t = sint (tv_sec (clock_gettime CLOCK_MONOTONIC p)) * 1000000000
             + sint (tv_nsec (clock_gettime CLOCK_MONOTONIC p))"
    if "monotonic_now p = Inr t"
    using that unfolding monotonic_now_def by (rule timespec_nanoseconds_Inr)
next
  assume r: "0 \<le> sint sec \<and> 0 \<le> sint nsec \<and> sint sec * 1000000000 + sint nsec < 2 ^ 63"
  note e = timespec_nanoseconds_exact [of sec nsec]
  show "\<exists>u. monotonic_raw_now p = Inr u \<and> sint u = sint sec * 1000000000 + sint nsec"
    if "clock_gettime CLOCK_MONOTONIC_RAW p = \<lparr>tv_sec = sec, tv_nsec = nsec\<rparr>"
    using that r e by (simp add: monotonic_raw_now_def)
  show "\<exists>u. monotonic_now p = Inr u \<and> sint u = sint sec * 1000000000 + sint nsec"
    if "clock_gettime CLOCK_MONOTONIC p = \<lparr>tv_sec = sec, tv_nsec = nsec\<rparr>"
    using that r e by (simp add: monotonic_now_def)
qed

theorem clock_gettime_now_nanoseconds_witness:
  "0 \<le> sint (86400 :: int64) \<and> 0 \<le> sint (999999999 :: int64)
   \<and> sint (86400 :: int64) * 1000000000 + sint (999999999 :: int64) < 2 ^ 63
   \<and> clock_gettime CLOCK_MONOTONIC_RAW
        \<lparr>performance_frequency = 0, performance_counter = 0, cntfrq_el0 = 0, cntvct_el0 = 0,
         monotonic_raw_time = \<lparr>tv_sec = 86400, tv_nsec = 999999999\<rparr>,
         monotonic_time = \<lparr>tv_sec = 86400, tv_nsec = 999999999\<rparr>\<rparr>
       = \<lparr>tv_sec = 86400, tv_nsec = 999999999\<rparr>
   \<and> clock_gettime CLOCK_MONOTONIC
        \<lparr>performance_frequency = 0, performance_counter = 0, cntfrq_el0 = 0, cntvct_el0 = 0,
         monotonic_raw_time = \<lparr>tv_sec = 86400, tv_nsec = 999999999\<rparr>,
         monotonic_time = \<lparr>tv_sec = 86400, tv_nsec = 999999999\<rparr>\<rparr>
       = \<lparr>tv_sec = 86400, tv_nsec = 999999999\<rparr>
   \<and> monotonic_raw_now
        \<lparr>performance_frequency = 0, performance_counter = 0, cntfrq_el0 = 0, cntvct_el0 = 0,
         monotonic_raw_time = \<lparr>tv_sec = 86400, tv_nsec = 999999999\<rparr>,
         monotonic_time = \<lparr>tv_sec = 86400, tv_nsec = 999999999\<rparr>\<rparr> = Inr 86400999999999
   \<and> monotonic_now
        \<lparr>performance_frequency = 0, performance_counter = 0, cntfrq_el0 = 0, cntvct_el0 = 0,
         monotonic_raw_time = \<lparr>tv_sec = 86400, tv_nsec = 999999999\<rparr>,
         monotonic_time = \<lparr>tv_sec = 86400, tv_nsec = 999999999\<rparr>\<rparr> = Inr 86400999999999
   \<and> sint (86400999999999 :: int64) = 86400 * 1000000000 + 999999999"
  using clock_gettime_now_nanoseconds [of
      "\<lparr>performance_frequency = 0, performance_counter = 0, cntfrq_el0 = 0, cntvct_el0 = 0,
         monotonic_raw_time = \<lparr>tv_sec = 86400, tv_nsec = 999999999\<rparr>,
         monotonic_time = \<lparr>tv_sec = 86400, tv_nsec = 999999999\<rparr>\<rparr>"
      86400999999999 86400 999999999]
  by (simp add: clock_gettime_def monotonic_raw_now_def monotonic_now_def
      timespec_nanoseconds_def bind_ub_def mul64_def add64_def)

section \<open>Clock selection\<close>

text \<open>
  Claim C4. \<^verbatim>\<open>high_res_time\<close> is the first match in the order: fallback override,
  \<^verbatim>\<open>cpu_clock\<close>, \<^verbatim>\<open>monotonic_raw\<close>, \<^verbatim>\<open>monotonic\<close>, \<^verbatim>\<open>win32_performance_counter\<close>,
  \<^verbatim>\<open>std::chrono::steady_clock\<close>. With no capability at all it is still
  \<^verbatim>\<open>steady_clock\<close>, and the type selected is always one the header declares under the
  same macros, so the alias never fails to resolve.
\<close>

theorem high_res_time_precedence:
  "(TRACY_TIMER_FALLBACK m \<longrightarrow> high_res_time m = steady_clock)
   \<and> (\<not> TRACY_TIMER_FALLBACK m \<and> TRACY_HAVE_CPU_CLOCK_KNOWN_FREQUENCY m \<longrightarrow>
        high_res_time m = cpu_clock)
   \<and> (\<not> TRACY_TIMER_FALLBACK m \<and> \<not> TRACY_HAVE_CPU_CLOCK_KNOWN_FREQUENCY m
        \<and> HAS_CLOCK_MONOTONIC_RAW m \<longrightarrow>
        high_res_time m = monotonic_raw)
   \<and> (\<not> TRACY_TIMER_FALLBACK m \<and> \<not> TRACY_HAVE_CPU_CLOCK_KNOWN_FREQUENCY m
        \<and> \<not> HAS_CLOCK_MONOTONIC_RAW m \<and> HAS_CLOCK_MONOTONIC m \<longrightarrow>
        high_res_time m = monotonic)
   \<and> (\<not> TRACY_TIMER_FALLBACK m \<and> \<not> TRACY_HAVE_CPU_CLOCK_KNOWN_FREQUENCY m
        \<and> \<not> HAS_CLOCK_MONOTONIC_RAW m \<and> \<not> HAS_CLOCK_MONOTONIC m \<and> WIN32 m \<longrightarrow>
        high_res_time m = win32_performance_counter)
   \<and> (\<not> TRACY_TIMER_FALLBACK m \<and> \<not> TRACY_HAVE_CPU_CLOCK_KNOWN_FREQUENCY m
        \<and> \<not> HAS_CLOCK_MONOTONIC_RAW m \<and> \<not> HAS_CLOCK_MONOTONIC m \<and> \<not> WIN32 m \<longrightarrow>
        high_res_time m = steady_clock)
   \<and> declared m (high_res_time m)"
  by (simp add: high_res_time_def)

theorem high_res_time_precedence_witness:
  "high_res_time \<lparr>TRACY_TIMER_FALLBACK = True, M_ARM64 = True, aarch64 = True, clang = True,
      HAS_CLOCK_MONOTONIC_RAW = True, HAS_CLOCK_MONOTONIC = True, WIN32 = True\<rparr>
     = steady_clock
   \<and> TRACY_HAVE_CPU_CLOCK_KNOWN_FREQUENCY
      \<lparr>TRACY_TIMER_FALLBACK = False, M_ARM64 = False, aarch64 = True, clang = False,
       HAS_CLOCK_MONOTONIC_RAW = True, HAS_CLOCK_MONOTONIC = True, WIN32 = False\<rparr>
   \<and> high_res_time \<lparr>TRACY_TIMER_FALLBACK = False, M_ARM64 = False, aarch64 = True,
      clang = False, HAS_CLOCK_MONOTONIC_RAW = True, HAS_CLOCK_MONOTONIC = True,
      WIN32 = False\<rparr>
     = cpu_clock
   \<and> \<not> TRACY_HAVE_CPU_CLOCK_KNOWN_FREQUENCY
      \<lparr>TRACY_TIMER_FALLBACK = False, M_ARM64 = False, aarch64 = False, clang = True,
       HAS_CLOCK_MONOTONIC_RAW = True, HAS_CLOCK_MONOTONIC = True, WIN32 = False\<rparr>
   \<and> high_res_time \<lparr>TRACY_TIMER_FALLBACK = False, M_ARM64 = False, aarch64 = False,
      clang = True, HAS_CLOCK_MONOTONIC_RAW = True, HAS_CLOCK_MONOTONIC = True,
      WIN32 = False\<rparr>
     = monotonic_raw
   \<and> high_res_time \<lparr>TRACY_TIMER_FALLBACK = False, M_ARM64 = False, aarch64 = False,
      clang = False, HAS_CLOCK_MONOTONIC_RAW = False, HAS_CLOCK_MONOTONIC = True,
      WIN32 = True\<rparr>
     = monotonic
   \<and> high_res_time \<lparr>TRACY_TIMER_FALLBACK = False, M_ARM64 = False, aarch64 = False,
      clang = False, HAS_CLOCK_MONOTONIC_RAW = False, HAS_CLOCK_MONOTONIC = False,
      WIN32 = True\<rparr>
     = win32_performance_counter
   \<and> high_res_time \<lparr>TRACY_TIMER_FALLBACK = False, M_ARM64 = False, aarch64 = False,
      clang = False, HAS_CLOCK_MONOTONIC_RAW = False, HAS_CLOCK_MONOTONIC = False,
      WIN32 = False\<rparr>
     = steady_clock"
  using
    high_res_time_precedence [of "\<lparr>TRACY_TIMER_FALLBACK = True, M_ARM64 = True,
      aarch64 = True, clang = True, HAS_CLOCK_MONOTONIC_RAW = True,
      HAS_CLOCK_MONOTONIC = True, WIN32 = True\<rparr>"]
    high_res_time_precedence [of "\<lparr>TRACY_TIMER_FALLBACK = False, M_ARM64 = False,
      aarch64 = True, clang = False, HAS_CLOCK_MONOTONIC_RAW = True,
      HAS_CLOCK_MONOTONIC = True, WIN32 = False\<rparr>"]
    high_res_time_precedence [of "\<lparr>TRACY_TIMER_FALLBACK = False, M_ARM64 = False,
      aarch64 = False, clang = True, HAS_CLOCK_MONOTONIC_RAW = True,
      HAS_CLOCK_MONOTONIC = True, WIN32 = False\<rparr>"]
    high_res_time_precedence [of "\<lparr>TRACY_TIMER_FALLBACK = False, M_ARM64 = False,
      aarch64 = False, clang = False, HAS_CLOCK_MONOTONIC_RAW = False,
      HAS_CLOCK_MONOTONIC = True, WIN32 = True\<rparr>"]
    high_res_time_precedence [of "\<lparr>TRACY_TIMER_FALLBACK = False, M_ARM64 = False,
      aarch64 = False, clang = False, HAS_CLOCK_MONOTONIC_RAW = False,
      HAS_CLOCK_MONOTONIC = False, WIN32 = True\<rparr>"]
    high_res_time_precedence [of "\<lparr>TRACY_TIMER_FALLBACK = False, M_ARM64 = False,
      aarch64 = False, clang = False, HAS_CLOCK_MONOTONIC_RAW = False,
      HAS_CLOCK_MONOTONIC = False, WIN32 = False\<rparr>"]
  by (simp add: TRACY_HAVE_CPU_CLOCK_KNOWN_FREQUENCY_def)

end
